theory Spec2Isabelle
  imports Main "HOL-Library.Multiset"
begin

section \<open>The hash table of src/hash\_table/HashTable.h\<close>

text \<open>
  \<^verbatim>\<open>HashTable<Key, Value>\<close> is a separate-chaining hash table. Its fields are
  \<^verbatim>\<open>std::vector<std::unique_ptr<Node>> buckets\<close>, \<^verbatim>\<open>size_t table_size\<close>,
  \<^verbatim>\<open>size_t element_count\<close> and \<^verbatim>\<open>float load_refactor\<close>.

  A \<^verbatim>\<open>std::unique_ptr<Node>\<close> owns its node, and the node owns its successor, so a
  bucket is modelled by value as the list of the (key, value) pairs of its chain, head
  first; the null pointer is the empty list. The functions that only walk one chain
  with a raw cursor (Insert, Get, Remove, ContainsKey) and Resize, which only moves
  owning pointers, are recursive functions over these lists. CopyBuckets keeps raw
  pointers into two tables at once and writes through them; it is modelled further
  down over an explicit store of nodes.

  \<^verbatim>\<open>std::hash<Key>\<close> is not part of the repository: it is the parameter \<open>h\<close> of every
  function that hashes.

  Sizes are natural numbers. Resize allocates the \<^verbatim>\<open>table_size * 2\<close> heads it
  computes and every \<^verbatim>\<open>++element_count\<close> follows an allocation, so on a machine
  neither wraps before memory runs out. The one operation that can go below zero,
  \<^verbatim>\<open>--element_count\<close>, is written with its wrap-around. HashFunction returns the
  index as a 32-bit \<^verbatim>\<open>int\<close>, and every caller indexes the vector with that
  \<^verbatim>\<open>int\<close>: both conversions are written out.

  The allocation of the vector of heads can fail when a table is constructed; the
  constructor is modelled with that failure. The operations on a table that exists are
  modelled for the runs in which their allocations succeed.

  Undefined behaviour (a modulus by zero, an access past the end of the vector, a read
  of a destroyed node) is a result of its own: the model stops there with an error
  value, it does not guess what the machine does next.
\<close>

subsection \<open>Single-precision arithmetic\<close>

text \<open>
  The growth test of Insert, \<^verbatim>\<open>element_count >= table_size * load_refactor\<close>, is
  evaluated in \<^verbatim>\<open>float\<close>: both sizes are converted to \<^verbatim>\<open>float\<close>, the product is
  rounded. The model is IEEE 754 binary32 with rounding to nearest, ties to even.
  \<open>Finite m e\<close> is the number \<open>m * 2 ^ e\<close>; the two zeros are not told apart (no
  operation used here can see the difference).
\<close>

datatype float = Finite int int | PosInf | NegInf | NaN

fun bitlen :: "nat \<Rightarrow> nat" where
  "bitlen n = (if n = 0 then 0 else Suc (bitlen (n div 2)))"

declare bitlen.simps [simp del]

definition round_even :: "int \<Rightarrow> int \<Rightarrow> int" where
  "round_even n d = (let m = n div d; r = 2 * (n mod d) in
     if r < d then m else if d < r then m + 1 else if even m then m else m + 1)"

definition round_float :: "int \<Rightarrow> int \<Rightarrow> float" where
  "round_float m e =
     (let s = max (int (bitlen (nat \<bar>m\<bar>)) - 24) (- 149 - e);
          n = (if s \<le> 0 then \<bar>m\<bar> else round_even \<bar>m\<bar> (2 ^ nat s));
          e' = (if s \<le> 0 then e else e + s)
      in if 128 < int (bitlen (nat n)) + e' then (if 0 < m then PosInf else NegInf)
         else Finite (sgn m * n) e')"

definition float_of_size_t :: "nat \<Rightarrow> float" where
  "float_of_size_t n = round_float (int n) 0"

fun float_mul :: "float \<Rightarrow> float \<Rightarrow> float" where
  "float_mul (Finite m e) (Finite m' e') = round_float (m * m') (e + e')"
| "float_mul NaN y = NaN"
| "float_mul x NaN = NaN"
| "float_mul (Finite m e) PosInf = (if m = 0 then NaN else if 0 < m then PosInf else NegInf)"
| "float_mul (Finite m e) NegInf = (if m = 0 then NaN else if 0 < m then NegInf else PosInf)"
| "float_mul PosInf (Finite m e) = (if m = 0 then NaN else if 0 < m then PosInf else NegInf)"
| "float_mul NegInf (Finite m e) = (if m = 0 then NaN else if 0 < m then NegInf else PosInf)"
| "float_mul PosInf PosInf = PosInf"
| "float_mul PosInf NegInf = NegInf"
| "float_mul NegInf PosInf = NegInf"
| "float_mul NegInf NegInf = PosInf"

fun float_ge :: "float \<Rightarrow> float \<Rightarrow> bool" where
  "float_ge (Finite m e) (Finite m' e') = (m' * 2 ^ nat (e' - e) \<le> m * 2 ^ nat (e - e'))"
| "float_ge NaN y = False"
| "float_ge x NaN = False"
| "float_ge PosInf y = True"
| "float_ge x NegInf = True"
| "float_ge (Finite m e) PosInf = False"
| "float_ge NegInf (Finite m e) = False"
| "float_ge NegInf PosInf = False"

subsection \<open>The table\<close>

type_synonym ('k, 'v) chain = "('k \<times> 'v) list"

record 'c hash_table =
  buckets :: "'c list"
  table_size :: nat
  element_count :: nat
  load_refactor :: float

text \<open>
  \<open>OutOfRange\<close> is the \<^verbatim>\<open>std::out_of_range\<close> that Get and Remove throw;
  \<open>LengthError\<close> and \<open>BadAlloc\<close> are the \<^verbatim>\<open>std::length_error\<close> and the
  \<^verbatim>\<open>std::bad_alloc\<close> that \<^verbatim>\<open>buckets.resize\<close> throws in the constructor. The others
  are undefined behaviour: \<^verbatim>\<open>hash(key) % table_size\<close> with \<^verbatim>\<open>table_size == 0\<close>,
  \<^verbatim>\<open>buckets[i]\<close> with \<open>i\<close> not below \<^verbatim>\<open>buckets.size()\<close>, a read or write through a
  pointer to a destroyed node, and the destruction of a node already destroyed.
\<close>

datatype error =
  OutOfRange | LengthError | BadAlloc | ModulusByZero | IndexOutOfBounds | UseAfterFree
  | DoubleFree

text \<open>
  The table that the constructor leaves when it returns: \<^verbatim>\<open>buckets.resize(table_size)\<close>
  has made that many null heads.
\<close>

definition HashTable :: "nat \<Rightarrow> float \<Rightarrow> ('k, 'v) chain hash_table" where
  "HashTable n load_factor =
     \<lparr>buckets = replicate n [], table_size = n, element_count = 0, load_refactor = load_factor\<rparr>"

text \<open>
  The constructor call \<^verbatim>\<open>HashTable<K, V> t(n, f)\<close>. The constructor has no \<^verbatim>\<open>throw\<close>
  of its own and looks at neither argument; what can fail is
  \<^verbatim>\<open>buckets.resize(table_size)\<close>, which throws \<^verbatim>\<open>std::length_error\<close> when \<open>n\<close> is
  above \<^verbatim>\<open>buckets.max_size()\<close> and \<^verbatim>\<open>std::bad_alloc\<close> when the storage for \<open>n\<close>
  heads cannot be had (no storage is asked for when \<open>n\<close> is 0). The standard library
  and the allocator are not part of the repository: \<open>max_size\<close> is the library's
  bound and \<open>allocates n\<close> says whether the allocator provides \<open>n\<close> heads.
\<close>

definition construct ::
  "nat \<Rightarrow> (nat \<Rightarrow> bool) \<Rightarrow> nat \<Rightarrow> float \<Rightarrow> error + ('k, 'v) chain hash_table" where
  "construct max_size allocates n load_factor =
     (if max_size < n then Inl LengthError
      else if 0 < n \<and> \<not> allocates n then Inl BadAlloc
      else Inr (HashTable n load_factor))"

text \<open>
  The conversion of a \<^verbatim>\<open>size_t\<close> to the 32-bit \<^verbatim>\<open>int\<close> that HashFunction returns:
  the low 32 bits, read as a signed number (the rule of C++20, and what the compilers
  did before it).
\<close>

definition int_of_size_t :: "nat \<Rightarrow> int" where
  "int_of_size_t n =
     (if n mod 2 ^ 32 < 2 ^ 31 then int (n mod 2 ^ 32) else int (n mod 2 ^ 32) - 2 ^ 32)"

text \<open>
  The conversion of an \<^verbatim>\<open>int\<close> to the 64-bit \<^verbatim>\<open>size_t\<close> with which a vector is
  indexed: a negative number wraps to the top of the range.
\<close>

definition size_t_of_int :: "int \<Rightarrow> nat" where
  "size_t_of_int i = nat (i mod 2 ^ 64)"

definition HashFunction :: "('k \<Rightarrow> nat) \<Rightarrow> 'c hash_table \<Rightarrow> 'k \<Rightarrow> error + int" where
  "HashFunction h t key =
     (if table_size t = 0 then Inl ModulusByZero
      else Inr (int_of_size_t (h key mod table_size t)))"

text \<open>The \<^verbatim>\<open>while (bucket)\<close> loop of Resize: each node becomes the head of its new chain.\<close>

fun relocate ::
  "('k \<Rightarrow> nat) \<Rightarrow> ('k, 'v) chain hash_table \<Rightarrow> ('k, 'v) chain \<Rightarrow> ('k, 'v) chain list
     \<Rightarrow> error + ('k, 'v) chain list" where
  "relocate h t [] new_buckets = Inr new_buckets"
| "relocate h t ((k, v) # bucket) new_buckets =
     (case HashFunction h t k of
        Inl e \<Rightarrow> Inl e
      | Inr hash \<Rightarrow>
          if length new_buckets \<le> size_t_of_int hash then Inl IndexOutOfBounds
          else relocate h t bucket
                 (new_buckets[size_t_of_int hash :=
                    (k, v) # new_buckets ! size_t_of_int hash]))"

text \<open>The \<^verbatim>\<open>for (auto &bucket : buckets)\<close> loop of Resize.\<close>

fun relocate_all ::
  "('k \<Rightarrow> nat) \<Rightarrow> ('k, 'v) chain hash_table \<Rightarrow> ('k, 'v) chain list \<Rightarrow> ('k, 'v) chain list
     \<Rightarrow> error + ('k, 'v) chain list" where
  "relocate_all h t [] new_buckets = Inr new_buckets"
| "relocate_all h t (bucket # rest) new_buckets =
     (case relocate h t bucket new_buckets of
        Inl e \<Rightarrow> Inl e
      | Inr new_buckets' \<Rightarrow> relocate_all h t rest new_buckets')"

text \<open>
  Resize. \<^verbatim>\<open>table_size\<close> is assigned after the loops, so the HashFunction calls inside
  them still see the old size: \<open>relocate\<close> is given the table \<open>t\<close> as it was. The
  \<^verbatim>\<open>int\<close> that HashFunction returns initialises \<^verbatim>\<open>size_t new_index\<close>.
\<close>

definition Resize ::
  "('k \<Rightarrow> nat) \<Rightarrow> ('k, 'v) chain hash_table \<Rightarrow> error + ('k, 'v) chain hash_table" where
  "Resize h t =
     (let new_size = table_size t * 2 in
      case relocate_all h t (buckets t) (replicate new_size []) of
        Inl e \<Rightarrow> Inl e
      | Inr new_buckets \<Rightarrow> Inr (t\<lparr>buckets := new_buckets, table_size := new_size\<rparr>))"

text \<open>The condition of the \<^verbatim>\<open>if\<close> that opens Insert.\<close>

definition load_reached :: "'c hash_table \<Rightarrow> bool" where
  "load_reached t =
     float_ge (float_of_size_t (element_count t))
       (float_mul (float_of_size_t (table_size t)) (load_refactor t))"

text \<open>
  The scan of Insert: \<open>Some\<close> of the chain with the value of the first node with an
  equal key replaced (the \<^verbatim>\<open>return\<close> inside the loop), \<open>None\<close> when the loop ends.
\<close>

fun assign_value :: "'k \<Rightarrow> 'v \<Rightarrow> ('k, 'v) chain \<Rightarrow> ('k, 'v) chain option" where
  "assign_value key val [] = None"
| "assign_value key val ((k, v) # rest) =
     (if k = key then Some ((k, val) # rest)
      else map_option (Cons (k, v)) (assign_value key val rest))"

definition Insert ::
  "('k \<Rightarrow> nat) \<Rightarrow> ('k, 'v) chain hash_table \<Rightarrow> 'k \<Rightarrow> 'v \<Rightarrow> error + ('k, 'v) chain hash_table"
  where
  "Insert h t key val =
     (case (if load_reached t then Resize h t else Inr t) of
        Inl e \<Rightarrow> Inl e
      | Inr t1 \<Rightarrow>
          (case HashFunction h t1 key of
             Inl e \<Rightarrow> Inl e
           | Inr hash \<Rightarrow>
               if length (buckets t1) \<le> size_t_of_int hash then Inl IndexOutOfBounds
               else (case assign_value key val (buckets t1 ! size_t_of_int hash) of
                       Some bucket \<Rightarrow>
                         Inr (t1\<lparr>buckets := (buckets t1)[size_t_of_int hash := bucket]\<rparr>)
                     | None \<Rightarrow>
                         Inr (t1\<lparr>buckets :=
                                   (buckets t1)[size_t_of_int hash :=
                                      (key, val) # buckets t1 ! size_t_of_int hash],
                                 element_count := element_count t1 + 1\<rparr>))))"

text \<open>The scan of Get and of ContainsKey: the value of the first node with an equal key.\<close>

fun find_value :: "'k \<Rightarrow> ('k, 'v) chain \<Rightarrow> 'v option" where
  "find_value key [] = None"
| "find_value key ((k, v) # rest) = (if k = key then Some v else find_value key rest)"

definition Get :: "('k \<Rightarrow> nat) \<Rightarrow> ('k, 'v) chain hash_table \<Rightarrow> 'k \<Rightarrow> error + 'v" where
  "Get h t key =
     (case HashFunction h t key of
        Inl e \<Rightarrow> Inl e
      | Inr hash \<Rightarrow>
          if length (buckets t) \<le> size_t_of_int hash then Inl IndexOutOfBounds
          else (case find_value key (buckets t ! size_t_of_int hash) of
                  Some v \<Rightarrow> Inr v
                | None \<Rightarrow> Inl OutOfRange))"

text \<open>
  The scan of Remove: \<open>Some\<close> of the chain with the first node with an equal key
  unlinked, \<open>None\<close> when the loop ends.
\<close>

fun unlink :: "'k \<Rightarrow> ('k, 'v) chain \<Rightarrow> ('k, 'v) chain option" where
  "unlink key [] = None"
| "unlink key ((k, v) # rest) =
     (if k = key then Some rest else map_option (Cons (k, v)) (unlink key rest))"

text \<open>\<^verbatim>\<open>--element_count\<close> on a 64-bit \<^verbatim>\<open>size_t\<close>.\<close>

definition decrement :: "nat \<Rightarrow> nat" where
  "decrement n = (if n = 0 then 2 ^ 64 - 1 else n - 1)"

definition Remove ::
  "('k \<Rightarrow> nat) \<Rightarrow> ('k, 'v) chain hash_table \<Rightarrow> 'k \<Rightarrow> error + ('k, 'v) chain hash_table" where
  "Remove h t key =
     (case HashFunction h t key of
        Inl e \<Rightarrow> Inl e
      | Inr hash \<Rightarrow>
          if length (buckets t) \<le> size_t_of_int hash then Inl IndexOutOfBounds
          else (case unlink key (buckets t ! size_t_of_int hash) of
                  Some bucket \<Rightarrow>
                    Inr (t\<lparr>buckets := (buckets t)[size_t_of_int hash := bucket],
                            element_count := decrement (element_count t)\<rparr>)
                | None \<Rightarrow> Inl OutOfRange))"

text \<open>Clear: \<^verbatim>\<open>buckets.clear()\<close> leaves a vector of size 0; \<^verbatim>\<open>table_size\<close> is not touched.\<close>

definition Clear :: "('k, 'v) chain hash_table \<Rightarrow> ('k, 'v) chain hash_table" where
  "Clear t = t\<lparr>buckets := [], element_count := 0\<rparr>"

definition ContainsKey :: "('k \<Rightarrow> nat) \<Rightarrow> ('k, 'v) chain hash_table \<Rightarrow> 'k \<Rightarrow> error + bool" where
  "ContainsKey h t key =
     (case HashFunction h t key of
        Inl e \<Rightarrow> Inl e
      | Inr hash \<Rightarrow>
          if length (buckets t) \<le> size_t_of_int hash then Inl IndexOutOfBounds
          else (case find_value key (buckets t ! size_t_of_int hash) of
                  Some v \<Rightarrow> Inr True
                | None \<Rightarrow> Inr False))"

definition IsEmpty :: "'c hash_table \<Rightarrow> bool" where
  "IsEmpty t = (element_count t = 0)"

definition Size :: "'c hash_table \<Rightarrow> nat" where
  "Size t = element_count t"

text \<open>
  What the move constructor and the move assignment leave in \<^verbatim>\<open>other\<close>: a vector
  that was moved from and is empty, and the three fields set to zero.
\<close>

definition moved_from :: "'c hash_table" where
  "moved_from = \<lparr>buckets = [], table_size = 0, element_count = 0, load_refactor = Finite 0 0\<rparr>"

text \<open>The move constructor: the pair of the new table and \<^verbatim>\<open>other\<close> afterwards.\<close>

definition move_construct ::
  "('k, 'v) chain hash_table \<Rightarrow> ('k, 'v) chain hash_table \<times> ('k, 'v) chain hash_table" where
  "move_construct other =
     (\<lparr>buckets = buckets other, table_size = table_size other,
       element_count = element_count other, load_refactor = load_refactor other\<rparr>,
      other\<lparr>buckets := [], table_size := 0, element_count := 0, load_refactor := Finite 0 0\<rparr>)"

text \<open>
  The move assignment \<^verbatim>\<open>this = std::move(other)\<close> for two different objects: the pair
  of \<^verbatim>\<open>*this\<close> and \<^verbatim>\<open>other\<close> afterwards. (With \<^verbatim>\<open>this == &other\<close> nothing happens.)
\<close>

definition move_assign ::
  "('k, 'v) chain hash_table \<Rightarrow> ('k, 'v) chain hash_table
     \<Rightarrow> ('k, 'v) chain hash_table \<times> ('k, 'v) chain hash_table" where
  "move_assign this other =
     (let this1 = Clear this in
      (this1\<lparr>buckets := buckets other, table_size := table_size other,
             element_count := element_count other, load_refactor := load_refactor other\<rparr>,
       other\<lparr>buckets := [], table_size := 0, element_count := 0, load_refactor := Finite 0 0\<rparr>))"

subsection \<open>CopyBuckets, over a store of nodes\<close>

text \<open>
  CopyBuckets reads the nodes of \<^verbatim>\<open>hash_table\<close> and writes the nodes of \<^verbatim>\<open>*this\<close>
  through the raw pointers \<^verbatim>\<open>current\<close> and \<^verbatim>\<open>previous\<close>, so here the nodes of both
  tables live in one store. An address is an index into the store; a cell is \<open>None\<close>
  once its node has been destroyed. A \<^verbatim>\<open>unique_ptr<Node>\<close> and a \<^verbatim>\<open>Node*\<close> are both a
  \<open>nat option\<close>, the null pointer being \<open>None\<close>, and a table in the store is a
  \<open>nat option hash_table\<close>.
\<close>

record ('k, 'v) Node =
  node_key :: 'k
  node_value :: 'v
  node_next :: "nat option"

type_synonym ('k, 'v) store = "('k, 'v) Node option list"

definition node_at :: "('k, 'v) store \<Rightarrow> nat \<Rightarrow> ('k, 'v) Node option" where
  "node_at s p = (if p < length s then s ! p else None)"

text \<open>
  \<^verbatim>\<open>std::make_unique<Node>(...)\<close>: the new node gets the next unused address.
\<close>

definition make_unique :: "('k, 'v) store \<Rightarrow> ('k, 'v) Node \<Rightarrow> ('k, 'v) store \<times> nat" where
  "make_unique s n = (s @ [Some n], length s)"

text \<open>
  The number of nodes alive, which every step of \<open>destroy\<close> lowers.
\<close>

definition live :: "('k, 'v) store \<Rightarrow> nat" where
  "live s = length (filter (\<lambda>c. c \<noteq> None) s)"

text \<open>
  What a \<^verbatim>\<open>unique_ptr<Node>\<close> does to the node it gives up: the node is destroyed, and
  its destructor destroys the \<^verbatim>\<open>next\<close> it owns, and so on down the chain.
\<close>

function destroy :: "('k, 'v) store \<Rightarrow> nat option \<Rightarrow> error + ('k, 'v) store" where
  "destroy s None = Inr s"
| "destroy s (Some p) =
     (case node_at s p of
        None \<Rightarrow> Inl DoubleFree
      | Some n \<Rightarrow> destroy (s[p := None]) (node_next n))"
  by pat_completeness auto
termination
proof (relation "measure (\<lambda>(s, p). live s)")
  show "wf (measure (\<lambda>(s :: ('k, 'v) store, p :: nat option). live s))"
    by simp
next
  fix s :: "('k, 'v) store" and p :: nat and n :: "('k, 'v) Node"
  assume "node_at s p = Some n"
  then have p: "p < length s" and sp: "s ! p = Some n"
    by (auto simp: node_at_def split: if_splits)
  have 1: "take p s @ Some n # drop (Suc p) s = s"
    using id_take_nth_drop [OF p] sp by simp
  have 2: "s[p := None] = take p s @ None # drop (Suc p) s"
    using p by (simp add: upd_conv_take_nth_drop)
  have "live (take p s @ Some n # drop (Suc p) s)
          = Suc (live (take p s @ None # drop (Suc p) s))"
    by (simp add: live_def)
  then have "live s = Suc (live (s[p := None]))"
    by (simp only: 1 2)
  then show "((s[p := None], node_next n), (s, Some p)) \<in> measure (\<lambda>(s, p). live s)"
    by simp
qed


text \<open>
  Lines 124 to 129, the first half of the body of \<^verbatim>\<open>while (current != nullptr)\<close>: the
  node under \<^verbatim>\<open>current\<close> is copied, and the copy is moved into \<^verbatim>\<open>buckets[i]\<close> of
  \<^verbatim>\<open>*this\<close> when \<^verbatim>\<open>previous\<close> is null, into \<^verbatim>\<open>previous->next\<close> otherwise. The
  assignment of a \<^verbatim>\<open>unique_ptr\<close> destroys what the target owned before.
\<close>

definition link_copy ::
  "('k, 'v) store \<Rightarrow> nat option list \<Rightarrow> nat \<Rightarrow> nat \<Rightarrow> nat option
     \<Rightarrow> error + ('k, 'v) store \<times> nat option list" where
  "link_copy s this_buckets i current previous =
     (case node_at s current of
        None \<Rightarrow> Inl UseAfterFree
      | Some cn \<Rightarrow>
          (case make_unique s
                  \<lparr>node_key = node_key cn, node_value = node_value cn, node_next = None\<rparr> of
             (s1, newNode) \<Rightarrow>
               (case previous of
                  None \<Rightarrow>
                    if length this_buckets \<le> i then Inl IndexOutOfBounds
                    else (case destroy s1 (this_buckets ! i) of
                            Inl e \<Rightarrow> Inl e
                          | Inr s2 \<Rightarrow> Inr (s2, this_buckets[i := Some newNode]))
                | Some p \<Rightarrow>
                    (case node_at s1 p of
                       None \<Rightarrow> Inl UseAfterFree
                     | Some pn \<Rightarrow>
                         (case destroy (s1[p := Some (pn\<lparr>node_next := Some newNode\<rparr>)])
                                 (node_next pn) of
                            Inl e \<Rightarrow> Inl e
                          | Inr s2 \<Rightarrow> Inr (s2, this_buckets))))))"

text \<open>
  Lines 130 and 131, the second half: \<^verbatim>\<open>previous\<close> becomes
  \<^verbatim>\<open>hash_table.buckets[i].get()\<close>, the head of the chain being read, when it was null,
  and \<^verbatim>\<open>previous->next.get()\<close> otherwise; \<^verbatim>\<open>current\<close> becomes \<^verbatim>\<open>current->next.get()\<close>.
  The result is the pair of the new \<^verbatim>\<open>current\<close> and the new \<^verbatim>\<open>previous\<close>.
\<close>

definition advance ::
  "('k, 'v) store \<Rightarrow> nat option list \<Rightarrow> nat \<Rightarrow> nat \<Rightarrow> nat option
     \<Rightarrow> error + nat option \<times> nat option" where
  "advance s other_buckets i current previous =
     (case (case previous of
              None \<Rightarrow>
                if length other_buckets \<le> i then Inl IndexOutOfBounds
                else Inr (other_buckets ! i)
            | Some p \<Rightarrow>
                (case node_at s p of
                   None \<Rightarrow> Inl UseAfterFree
                 | Some pn \<Rightarrow> Inr (node_next pn))) of
        Inl e \<Rightarrow> Inl e
      | Inr previous' \<Rightarrow>
          (case node_at s current of
             None \<Rightarrow> Inl UseAfterFree
           | Some cn \<Rightarrow> Inr (node_next cn, previous')))"

text \<open>
  The \<^verbatim>\<open>while (current != nullptr)\<close> loop. In a store with a cycle it need not end, so
  it is a partial function: not returning is the value \<open>None\<close>.
\<close>

partial_function (option) copy_chain ::
  "('k, 'v) store \<Rightarrow> nat option list \<Rightarrow> nat option list \<Rightarrow> nat \<Rightarrow> nat option \<Rightarrow> nat option
     \<Rightarrow> (error + ('k, 'v) store \<times> nat option list) option" where
  "copy_chain s this_buckets other_buckets i current previous =
     (case current of
        None \<Rightarrow> Some (Inr (s, this_buckets))
      | Some c \<Rightarrow>
          (case link_copy s this_buckets i c previous of
             Inl e \<Rightarrow> Some (Inl e)
           | Inr (s', this_buckets') \<Rightarrow>
               (case advance s' other_buckets i c previous of
                  Inl e \<Rightarrow> Some (Inl e)
                | Inr (current', previous') \<Rightarrow>
                    copy_chain s' this_buckets' other_buckets i current' previous')))"

text \<open>
  The \<^verbatim>\<open>for\<close> loop over the indices below \<^verbatim>\<open>hash_table.table_size\<close>.
\<close>

fun copy_from ::
  "('k, 'v) store \<Rightarrow> nat option list \<Rightarrow> nat option list \<Rightarrow> nat list
     \<Rightarrow> (error + ('k, 'v) store \<times> nat option list) option" where
  "copy_from s this_buckets other_buckets [] = Some (Inr (s, this_buckets))"
| "copy_from s this_buckets other_buckets (i # rest) =
     (if length other_buckets \<le> i then Some (Inl IndexOutOfBounds)
      else (case copy_chain s this_buckets other_buckets i (other_buckets ! i) None of
              None \<Rightarrow> None
            | Some (Inl e) \<Rightarrow> Some (Inl e)
            | Some (Inr (s', this_buckets')) \<Rightarrow> copy_from s' this_buckets' other_buckets rest))"

definition CopyBuckets ::
  "('k, 'v) store \<Rightarrow> nat option hash_table \<Rightarrow> nat option hash_table
     \<Rightarrow> (error + ('k, 'v) store \<times> nat option hash_table) option" where
  "CopyBuckets s this hash_table =
     (case copy_from s (buckets this) (buckets hash_table) [0..<table_size hash_table] of
        None \<Rightarrow> None
      | Some (Inl e) \<Rightarrow> Some (Inl e)
      | Some (Inr (s', this_buckets)) \<Rightarrow> Some (Inr (s', this\<lparr>buckets := this_buckets\<rparr>)))"

text \<open>
  The copy constructor: \<^verbatim>\<open>buckets(other.table_size)\<close> makes the null heads, the other
  fields are copied, then CopyBuckets runs.
\<close>

definition copy_construct ::
  "('k, 'v) store \<Rightarrow> nat option hash_table
     \<Rightarrow> (error + ('k, 'v) store \<times> nat option hash_table) option" where
  "copy_construct s other =
     CopyBuckets s
       \<lparr>buckets = replicate (table_size other) None, table_size = table_size other,
        element_count = element_count other, load_refactor = load_refactor other\<rparr>
       other"

text \<open>
  Clear on a table in the store: \<^verbatim>\<open>buckets.clear()\<close> destroys every head, and with it
  every chain.
\<close>

fun destroy_all :: "('k, 'v) store \<Rightarrow> nat option list \<Rightarrow> error + ('k, 'v) store" where
  "destroy_all s [] = Inr s"
| "destroy_all s (p # ps) =
     (case destroy s p of Inl e \<Rightarrow> Inl e | Inr s' \<Rightarrow> destroy_all s' ps)"

definition Clear_stored ::
  "('k, 'v) store \<Rightarrow> nat option hash_table \<Rightarrow> error + ('k, 'v) store \<times> nat option hash_table"
  where
  "Clear_stored s t =
     (case destroy_all s (buckets t) of
        Inl e \<Rightarrow> Inl e
      | Inr s' \<Rightarrow> Inr (s', t\<lparr>buckets := [], element_count := 0\<rparr>))"

text \<open>
  The copy assignment \<^verbatim>\<open>this = other\<close> for two different objects. (With
  \<^verbatim>\<open>this == &other\<close> nothing happens.)
\<close>

definition copy_assign ::
  "('k, 'v) store \<Rightarrow> nat option hash_table \<Rightarrow> nat option hash_table
     \<Rightarrow> (error + ('k, 'v) store \<times> nat option hash_table) option" where
  "copy_assign s this other =
     (case Clear_stored s this of
        Inl e \<Rightarrow> Some (Inl e)
      | Inr (s1, this1) \<Rightarrow>
          CopyBuckets s1
            (this1\<lparr>table_size := table_size other, element_count := element_count other,
                   load_refactor := load_refactor other\<rparr>)
            other)"

text \<open>
  A table given by value laid out in the store: each chain is allocated from its last
  node to its head.
\<close>

fun store_chain :: "('k, 'v) store \<Rightarrow> ('k, 'v) chain \<Rightarrow> ('k, 'v) store \<times> nat option" where
  "store_chain s [] = (s, None)"
| "store_chain s ((k, v) # rest) =
     (case store_chain s rest of
        (s1, p) \<Rightarrow>
          (case make_unique s1 \<lparr>node_key = k, node_value = v, node_next = p\<rparr> of
             (s2, a) \<Rightarrow> (s2, Some a)))"

fun store_chains ::
  "('k, 'v) store \<Rightarrow> ('k, 'v) chain list \<Rightarrow> ('k, 'v) store \<times> nat option list" where
  "store_chains s [] = (s, [])"
| "store_chains s (c # cs) =
     (case store_chain s c of
        (s1, p) \<Rightarrow> (case store_chains s1 cs of (s2, ps) \<Rightarrow> (s2, p # ps)))"

definition in_store ::
  "('k, 'v) store \<Rightarrow> ('k, 'v) chain hash_table \<Rightarrow> ('k, 'v) store \<times> nat option hash_table" where
  "in_store s t =
     (case store_chains s (buckets t) of
        (s', ps) \<Rightarrow>
          (s', \<lparr>buckets = ps, table_size = table_size t, element_count = element_count t,
                load_refactor = load_refactor t\<rparr>))"

subsection \<open>The invariants of the data model, as checks\<close>

definition keys_of :: "('k, 'v) chain hash_table \<Rightarrow> 'k list" where
  "keys_of t = map fst (concat (buckets t))"

text \<open>Every entry of the chain at index \<open>i\<close> has a key that hashes to \<open>i\<close>.\<close>

definition chains_indexed :: "('k \<Rightarrow> nat) \<Rightarrow> ('k, 'v) chain hash_table \<Rightarrow> bool" where
  "chains_indexed h t =
     list_all (\<lambda>(i, c). list_all (\<lambda>(k, v). h k mod table_size t = i) c)
       (enumerate 0 (buckets t))"

text \<open>No two entries of the table have the same key.\<close>

definition keys_distinct :: "('k, 'v) chain hash_table \<Rightarrow> bool" where
  "keys_distinct t = distinct (keys_of t)"

text \<open>The count is the number of different keys stored.\<close>

definition count_exact :: "('k, 'v) chain hash_table \<Rightarrow> bool" where
  "count_exact t = (element_count t = length (remdups (keys_of t)))"

text \<open>
  The first invariant with a free capacity \<open>n\<close>: every entry of the chain at index
  \<open>i\<close> has a key with \<open>h k mod n = i\<close>. Resize is stated with it.
\<close>

definition placed_by :: "('k \<Rightarrow> nat) \<Rightarrow> nat \<Rightarrow> ('k, 'v) chain list \<Rightarrow> bool" where
  "placed_by h n bs = (\<forall>i < length bs. \<forall>(k, v) \<in> set (bs ! i). h k mod n = i)"

text \<open>
  The invariants together, on a table whose vector has its \<^verbatim>\<open>table_size\<close> slots, at
  least one and at most \<open>2 ^ 31\<close>, so that every index is an \<^verbatim>\<open>int\<close>.
\<close>

definition invariants :: "('k \<Rightarrow> nat) \<Rightarrow> ('k, 'v) chain hash_table \<Rightarrow> bool" where
  "invariants h t \<longleftrightarrow>
     length (buckets t) = table_size t \<and> 0 < table_size t \<and> table_size t \<le> 2 ^ 31
     \<and> chains_indexed h t \<and> keys_distinct t \<and> count_exact t"

section \<open>Evaluation and success lemmas\<close>

lemmas float_eval =
  load_reached_def float_of_size_t_def round_float_def round_even_def bitlen.simps Let_def

lemmas table_eval =
  Insert_def Resize_def HashFunction_def HashTable_def Get_def Remove_def ContainsKey_def
  Clear_def decrement_def Size_def IsEmpty_def int_of_size_t_def size_t_of_int_def

lemmas store_eval =
  node_at_def make_unique_def link_copy_def advance_def copy_chain.simps CopyBuckets_def
  copy_construct_def Clear_stored_def copy_assign_def in_store_def

lemmas invariant_eval =
  keys_of_def chains_indexed_def keys_distinct_def count_exact_def enumerate_eq_zip

lemma upt_2: "[0..<2] = [0, 1]"
  by (simp add: upt_rec)

lemma replicate_2: "replicate 2 x = [x, x]"
  by (simp add: numeral_2_eq_2)

lemma replicate_4: "replicate 4 x = [x, x, x, x]"
  by (simp add: numeral_Bit0)

text \<open>
  With at most \<open>2 ^ 31\<close> buckets the index survives the way through \<^verbatim>\<open>int\<close>.
\<close>

lemma index_small:
  assumes "0 < m" and "m \<le> 2 ^ 31"
  shows "size_t_of_int (int (k mod m)) = k mod m"
proof -
  have "k mod m < m" using assms(1) by simp
  with assms(2) have "int (k mod m) < 2 ^ 64" by simp
  then have "int (k mod m) mod 2 ^ 64 = int (k mod m)"
    by (intro mod_pos_pos_trivial) simp_all
  then show ?thesis by (simp add: size_t_of_int_def del: of_nat_mod)
qed

lemma HashFunction_small:
  assumes "0 < table_size t" and "table_size t \<le> 2 ^ 31"
  shows "HashFunction h t key = Inr (int (h key mod table_size t))"
proof -
  have "h key mod table_size t < table_size t" using assms(1) by simp
  with assms(2) have small: "h key mod table_size t < 2 ^ 31" by simp
  then have "h key mod table_size t mod 2 ^ 32 = h key mod table_size t" by simp
  with small assms(1) show ?thesis
    by (simp add: HashFunction_def int_of_size_t_def)
qed




lemma find_value_assign_value:
  "assign_value key val c = Some c' \<Longrightarrow> find_value key c' = Some val"
  by (induction c arbitrary: c') (auto split: if_splits)

lemma assign_value_None: "assign_value key val c = None \<longleftrightarrow> find_value key c = None"
  by (induction c) (auto split: if_splits)


section \<open>What holds on every table\<close>

subsection \<open>Resize keeps the entries and places them by the old capacity\<close>

lemma mset_concat_update_Cons:
  "i < length nb \<Longrightarrow> mset (concat (nb[i := x # nb ! i])) = add_mset x (mset (concat nb))"
proof (induction nb arbitrary: i)
  case Nil
  then show ?case by simp
next
  case (Cons c nb)
  then show ?case by (cases i) simp_all
qed



lemma placed_by_update:
  "placed_by h n bs \<Longrightarrow> i < length bs \<Longrightarrow> h k mod n = i
     \<Longrightarrow> placed_by h n (bs[i := (k, v) # bs ! i])"
  by (auto simp: placed_by_def nth_list_update)




subsection \<open>Get and ContainsKey on a table that satisfies the invariants\<close>

lemma chains_indexed_iff:
  "chains_indexed h t \<longleftrightarrow> placed_by h (table_size t) (buckets t)"
  unfolding chains_indexed_def placed_by_def list_all_iff
  by (force simp: in_set_enumerate_eq)

lemma find_value_Some_mem: "find_value key c = Some v \<Longrightarrow> (key, v) \<in> set c"
  by (induction c) (auto split: if_splits)

lemma find_value_None_iff: "find_value key c = None \<longleftrightarrow> key \<notin> fst ` set c"
  by (induction c) (auto split: if_splits)

lemma find_value_distinct:
  "distinct (map fst c) \<Longrightarrow> (key, v) \<in> set c \<Longrightarrow> find_value key c = Some v"
proof (induction c)
  case Nil
  then show ?case by simp
next
  case (Cons x c)
  obtain k w where x: "x = (k, w)" by (cases x)
  show ?case
  proof (cases "k = key")
    case True
    with Cons.prems have "(key, v) \<notin> set c"
      by (auto simp: x rev_image_eqI)
    with Cons.prems True show ?thesis by (simp add: x)
  next
    case False
    with Cons show ?thesis by (simp add: x)
  qed
qed

lemma distinct_keys_chain:
  "distinct (map fst (concat bs)) \<Longrightarrow> i < length bs \<Longrightarrow> distinct (map fst (bs ! i))"
  by (induction bs arbitrary: i) (auto simp: nth_Cons split: nat.splits)

lemma stored_in_own_chain:
  assumes "placed_by h n bs" and "(key, v) \<in> set (concat bs)"
  shows "h key mod n < length bs \<and> (key, v) \<in> set (bs ! (h key mod n))"
proof -
  from assms(2) obtain c where "c \<in> set bs" "(key, v) \<in> set c" by auto
  then obtain i where i: "i < length bs" "(key, v) \<in> set (bs ! i)"
    by (auto simp: in_set_conv_nth)
  with assms(1) have "h key mod n = i" by (auto simp: placed_by_def)
  with i show ?thesis by simp
qed


lemma Get_finds_stored:
  assumes "length (buckets t) = table_size t" and "0 < table_size t"
    and "chains_indexed h t" and "keys_distinct t" and "table_size t \<le> 2 ^ 31"
  shows "(Get h t key = Inr v \<longleftrightarrow> (key, v) \<in> set (concat (buckets t)))
       \<and> (Get h t key = Inl OutOfRange \<longleftrightarrow> key \<notin> set (keys_of t))
       \<and> ContainsKey h t key = Inr (key \<in> set (keys_of t))"
proof -
  let ?i = "h key mod table_size t"
  let ?c = "buckets t ! ?i"
  have i: "?i < length (buckets t)" using assms by simp
  have placed: "placed_by h (table_size t) (buckets t)"
    using assms(3) by (simp add: chains_indexed_iff)
  have dist: "distinct (map fst ?c)"
    using assms(4) i by (auto simp: keys_distinct_def keys_of_def intro: distinct_keys_chain)
  have "?c \<in> set (buckets t)" using i by simp
  then have mem: "(key, w) \<in> set (concat (buckets t)) \<longleftrightarrow> (key, w) \<in> set ?c" for w
    using stored_in_own_chain [OF placed, of key w] by auto
  have get: "Get h t key = (case find_value key ?c of Some v \<Rightarrow> Inr v | None \<Rightarrow> Inl OutOfRange)"
    using assms(2,5) i by (simp add: Get_def HashFunction_small index_small not_le)
  have has: "ContainsKey h t key = (case find_value key ?c of Some v \<Rightarrow> Inr True | None \<Rightarrow> Inr False)"
    using assms(2,5) i by (simp add: ContainsKey_def HashFunction_small index_small not_le)
  have keys: "key \<in> set (keys_of t) \<longleftrightarrow> key \<in> fst ` set ?c"
  proof
    assume "key \<in> set (keys_of t)"
    then obtain w where "(key, w) \<in> set (concat (buckets t))"
      unfolding keys_of_def by fastforce
    then have "(key, w) \<in> set ?c" using mem by blast
    then show "key \<in> fst ` set ?c" by (metis fst_conv image_eqI)
  next
    assume "key \<in> fst ` set ?c"
    then obtain w where "(key, w) \<in> set ?c" by auto
    then have "(key, w) \<in> set (concat (buckets t))" using mem by blast
    then show "key \<in> set (keys_of t)" unfolding keys_of_def by (metis fst_conv image_eqI set_map)
  qed
  have mem_v: "(key, v) \<in> set (concat (buckets t)) \<longleftrightarrow> (key, v) \<in> set ?c"
    using mem by blast
  show ?thesis
  proof (cases "find_value key ?c")
    case None
    then have k: "key \<notin> fst ` set ?c" by (simp add: find_value_None_iff)
    then have "(key, v) \<notin> set ?c" by (metis fst_conv image_eqI)
    with None k show ?thesis unfolding get has keys mem_v by simp
  next
    case (Some w)
    then have w: "(key, w) \<in> set ?c" by (rule find_value_Some_mem)
    then have k: "key \<in> fst ` set ?c" by (metis fst_conv image_eqI)
    have "(key, v) \<in> set ?c \<longleftrightarrow> w = v"
      using find_value_distinct [OF dist, of key v] Some w by auto
    with Some k show ?thesis unfolding get has keys mem_v by simp
  qed
qed

subsection \<open>Insert without growth\<close>

lemma find_value_assign_other:
  "assign_value key val c = Some c' \<Longrightarrow> k \<noteq> key \<Longrightarrow> find_value k c' = find_value k c"
  by (induction c arbitrary: c') (auto split: if_splits)

lemma keys_assign_value: "assign_value key val c = Some c' \<Longrightarrow> map fst c' = map fst c"
  by (induction c arbitrary: c') (auto split: if_splits)

text \<open>Insert on a table that does not have to grow: what Get answers afterwards.\<close>

lemma Insert_without_growth:
  assumes "length (buckets t) = table_size t" and "0 < table_size t" and "\<not> load_reached t"
    and "table_size t \<le> 2 ^ 31"
  shows "\<exists>t'. Insert h t key val = Inr t'
           \<and> table_size t' = table_size t \<and> length (buckets t') = table_size t
           \<and> load_refactor t' = load_refactor t
           \<and> element_count t' =
               (if ContainsKey h t key = Inr True then element_count t else element_count t + 1)
           \<and> (\<forall>k. Get h t' k = (if k = key then Inr val else Get h t k))
           \<and> (\<forall>k. ContainsKey h t' k = (if k = key then Inr True else ContainsKey h t k))"
proof -
  let ?i = "h key mod table_size t"
  let ?c = "buckets t ! ?i"
  have i: "?i < length (buckets t)" using assms by simp
  have idx: "h k mod table_size t < length (buckets t)" for k using assms by simp
  have has: "ContainsKey h t key = Inr True \<longleftrightarrow> find_value key ?c \<noteq> None"
    using assms(2,4) i
    by (auto simp: ContainsKey_def HashFunction_small index_small not_le split: option.splits)
  show ?thesis
  proof (cases "assign_value key val ?c")
    case None
    then have absent: "find_value key ?c = None" by (simp add: assign_value_None)
    let ?t' = "t\<lparr>buckets := (buckets t)[?i := (key, val) # ?c],
                 element_count := element_count t + 1\<rparr>"
    have ins: "Insert h t key val = Inr ?t'"
      using assms i None by (simp add: Insert_def HashFunction_small index_small not_le)
    have chain: "find_value k (buckets ?t' ! (h k mod table_size t))
                   = (if k = key then Some val else find_value k (buckets t ! (h k mod table_size t)))" for k
      using i idx [of k] by (cases "h k mod table_size t = ?i") (auto simp: nth_list_update)
    have "Get h ?t' k = (if k = key then Inr val else Get h t k)" for k
      using assms(1,2,4) idx [of k] chain [of k]
      by (simp add: Get_def HashFunction_small index_small not_le)
    moreover have "ContainsKey h ?t' k = (if k = key then Inr True else ContainsKey h t k)" for k
      using assms(1,2,4) idx [of k] chain [of k]
      by (simp add: ContainsKey_def HashFunction_small index_small not_le)
    ultimately show ?thesis
      using ins absent has assms(1) by simp
  next
    case (Some c')
    then have present: "find_value key ?c \<noteq> None"
      using assign_value_None [of key val ?c] by simp
    let ?t' = "t\<lparr>buckets := (buckets t)[?i := c']\<rparr>"
    have ins: "Insert h t key val = Inr ?t'"
      using assms i Some by (simp add: Insert_def HashFunction_small index_small not_le)
    have chain: "find_value k (buckets ?t' ! (h k mod table_size t))
                   = (if k = key then Some val else find_value k (buckets t ! (h k mod table_size t)))" for k
      using i idx [of k] find_value_assign_value [OF Some] find_value_assign_other [OF Some, of k]
      by (cases "h k mod table_size t = ?i") (auto simp: nth_list_update)
    have "Get h ?t' k = (if k = key then Inr val else Get h t k)" for k
      using assms(1,2,4) idx [of k] chain [of k]
      by (simp add: Get_def HashFunction_small index_small not_le)
    moreover have "ContainsKey h ?t' k = (if k = key then Inr True else ContainsKey h t k)" for k
      using assms(1,2,4) idx [of k] chain [of k]
      by (simp add: ContainsKey_def HashFunction_small index_small not_le)
    ultimately show ?thesis
      using ins present has assms(1) by simp
  qed
qed


subsection \<open>Insert and Remove keep the invariants\<close>

lemma placed_by_replace:
  assumes "placed_by h n bs" and "i < length bs" and "fst ` set c' \<subseteq> fst ` set (bs ! i)"
  shows "placed_by h n (bs[i := c'])"
  unfolding placed_by_def
proof (intro allI impI ballI)
  fix j x
  assume j: "j < length (bs[i := c'])" and x: "x \<in> set (bs[i := c'] ! j)"
  obtain k v where kv: "x = (k, v)" by (cases x)
  show "case x of (k, v) \<Rightarrow> h k mod n = j"
  proof (cases "j = i")
    case True
    with x j have "(k, v) \<in> set c'" by (simp add: kv)
    then have "k \<in> fst ` set c'" by (metis fst_conv image_eqI)
    with assms(3) obtain w where "(k, w) \<in> set (bs ! i)" by fastforce
    with assms(1,2) have "h k mod n = i" by (auto simp: placed_by_def)
    with True show ?thesis by (simp add: kv)
  next
    case False
    with x j assms(1) show ?thesis by (auto simp: placed_by_def kv)
  qed
qed

lemma keys_concat_update:
  "i < length bs \<Longrightarrow> map fst c' = map fst (bs ! i)
     \<Longrightarrow> map fst (concat (bs[i := c'])) = map fst (concat bs)"
proof (induction bs arbitrary: i)
  case Nil
  then show ?case by simp
next
  case (Cons c bs)
  then show ?case by (cases i) simp_all
qed

lemma mset_concat_update:
  "i < length bs \<Longrightarrow> mset (bs ! i) = add_mset x (mset c')
     \<Longrightarrow> mset (concat bs) = add_mset x (mset (concat (bs[i := c'])))"
proof (induction bs arbitrary: i)
  case Nil
  then show ?case by simp
next
  case (Cons c bs)
  then show ?case by (cases i) simp_all
qed

lemma unlink_None_iff: "unlink key c = None \<longleftrightarrow> key \<notin> fst ` set c"
  by (induction c) (auto split: if_splits)

lemma unlink_Some:
  "unlink key c = Some c' \<Longrightarrow> \<exists>v. find_value key c = Some v \<and> mset c = add_mset (key, v) (mset c')"
  by (induction c arbitrary: c') (auto split: if_splits)

lemma count_exact_distinct:
  "distinct (keys_of t) \<Longrightarrow> count_exact t \<longleftrightarrow> element_count t = length (keys_of t)"
  by (simp add: count_exact_def distinct_remdups_id)

lemma absent_in_chain:
  assumes "placed_by h n bs" and "key \<notin> fst ` set (bs ! (h key mod n))"
  shows "key \<notin> set (map fst (concat bs))"
proof
  assume "key \<in> set (map fst (concat bs))"
  then obtain w where "(key, w) \<in> set (concat bs)" by fastforce
  from stored_in_own_chain [OF assms(1) this] assms(2) show False
    by (metis fst_conv image_eqI)
qed

text \<open>The table that the constructor builds with at least one bucket satisfies them.\<close>

lemma HashTable_invariants: "0 < n \<Longrightarrow> n \<le> 2 ^ 31 \<Longrightarrow> invariants h (HashTable n lf)"
  by (simp add: invariants_def chains_indexed_iff placed_by_def keys_distinct_def
      count_exact_def keys_of_def HashTable_def)

lemma Insert_keeps_invariants:
  assumes inv: "invariants h t" and "\<not> load_reached t"
  shows "\<exists>t'. Insert h t key val = Inr t' \<and> invariants h t'"
proof -
  let ?n = "table_size t"
  let ?i = "h key mod ?n"
  let ?c = "buckets t ! ?i"
  from inv have sized: "length (buckets t) = ?n" "0 < ?n" "?n \<le> 2 ^ 31"
    and placed: "placed_by h ?n (buckets t)"
    and dist: "distinct (keys_of t)" and "count_exact t"
    by (simp_all add: invariants_def chains_indexed_iff keys_distinct_def)
  then have count: "element_count t = length (keys_of t)"
    by (simp add: count_exact_distinct)
  have i: "?i < length (buckets t)" using sized by simp
  show ?thesis
  proof (cases "assign_value key val ?c")
    case None
    let ?bs = "(buckets t)[?i := (key, val) # ?c]"
    let ?t' = "t\<lparr>buckets := ?bs, element_count := element_count t + 1\<rparr>"
    have ins: "Insert h t key val = Inr ?t'"
      using assms(2) sized i None
      by (simp add: Insert_def HashFunction_small index_small not_le)
    from None have "key \<notin> fst ` set ?c"
      by (simp add: assign_value_None find_value_None_iff)
    from absent_in_chain [OF placed this] have new: "key \<notin> set (keys_of t)"
      by (simp add: keys_of_def)
    have "mset (map fst (concat ?bs)) = mset (key # keys_of t)"
      using arg_cong [OF mset_concat_update_Cons [OF i, of "(key, val)"], of "image_mset fst"]
      by (simp add: keys_of_def)
    then have keys: "mset (keys_of ?t') = mset (key # keys_of t)"
      by (simp add: keys_of_def)
    from mset_eq_imp_distinct_iff [OF keys] new dist have d: "distinct (keys_of ?t')"
      by simp
    from mset_eq_length [OF keys] count have c: "element_count ?t' = length (keys_of ?t')"
      by simp
    have "placed_by h ?n ?bs"
      using placed i by (rule placed_by_update) simp
    with d c sized have "invariants h ?t'"
      by (simp add: invariants_def chains_indexed_iff keys_distinct_def count_exact_distinct)
    with ins show ?thesis by blast
  next
    case (Some c')
    let ?bs = "(buckets t)[?i := c']"
    let ?t' = "t\<lparr>buckets := ?bs\<rparr>"
    have ins: "Insert h t key val = Inr ?t'"
      using assms(2) sized i Some
      by (simp add: Insert_def HashFunction_small index_small not_le)
    have k: "map fst c' = map fst ?c" using Some by (rule keys_assign_value)
    then have "fst ` set c' = fst ` set ?c" by (metis set_map)
    then have "placed_by h ?n ?bs"
      using placed i by (intro placed_by_replace) simp_all
    moreover have "keys_of ?t' = keys_of t"
      using keys_concat_update [OF i k] by (simp add: keys_of_def)
    ultimately have "invariants h ?t'"
      using sized dist count
      by (simp add: invariants_def chains_indexed_iff keys_distinct_def count_exact_distinct)
    with ins show ?thesis by blast
  qed
qed

lemma Remove_on_invariants:
  assumes inv: "invariants h t"
  shows "(key \<notin> set (keys_of t) \<longrightarrow> Remove h t key = Inl OutOfRange)
       \<and> (\<forall>v. (key, v) \<in> set (concat (buckets t)) \<longrightarrow>
            (\<exists>t'. Remove h t key = Inr t'
                \<and> mset (concat (buckets t)) = add_mset (key, v) (mset (concat (buckets t')))
                \<and> element_count t' + 1 = element_count t
                \<and> table_size t' = table_size t \<and> load_refactor t' = load_refactor t
                \<and> invariants h t'))"
proof -
  let ?n = "table_size t"
  let ?i = "h key mod ?n"
  let ?c = "buckets t ! ?i"
  from inv have sized: "length (buckets t) = ?n" "0 < ?n" "?n \<le> 2 ^ 31"
    and placed: "placed_by h ?n (buckets t)"
    and dist: "distinct (keys_of t)" and "count_exact t"
    by (simp_all add: invariants_def chains_indexed_iff keys_distinct_def)
  then have count: "element_count t = length (keys_of t)"
    by (simp add: count_exact_distinct)
  have i: "?i < length (buckets t)" using sized by simp
  have rem: "Remove h t key =
      (case unlink key ?c of
         Some bucket \<Rightarrow> Inr (t\<lparr>buckets := (buckets t)[?i := bucket],
                                element_count := decrement (element_count t)\<rparr>)
       | None \<Rightarrow> Inl OutOfRange)"
  proof -
    have "HashFunction h t key = Inr (int ?i)" and "size_t_of_int (int ?i) = ?i"
      using sized by (simp_all add: HashFunction_small index_small)
    with i show ?thesis by (simp add: Remove_def not_le cong: option.case_cong)
  qed
  have absent: "Remove h t key = Inl OutOfRange" if "key \<notin> set (keys_of t)"
  proof -
    have c: "?c \<in> set (buckets t)" using i by simp
    have "key \<notin> fst ` set ?c"
    proof
      assume "key \<in> fst ` set ?c"
      then obtain w where "(key, w) \<in> set ?c" by auto
      with c have "(key, w) \<in> set (concat (buckets t))" by auto
      then have "key \<in> set (keys_of t)"
        unfolding keys_of_def by (metis fst_conv image_eqI set_map)
      with that show False by simp
    qed
    then have "unlink key ?c = None" by (simp add: unlink_None_iff)
    then show ?thesis by (simp add: rem)
  qed
  have present: "\<exists>t'. Remove h t key = Inr t'
                \<and> mset (concat (buckets t)) = add_mset (key, v) (mset (concat (buckets t')))
                \<and> element_count t' + 1 = element_count t
                \<and> table_size t' = table_size t \<and> load_refactor t' = load_refactor t
                \<and> invariants h t'"
    if stored: "(key, v) \<in> set (concat (buckets t))" for v
  proof -
    from stored_in_own_chain [OF placed stored] have v: "(key, v) \<in> set ?c" by simp
    then have "key \<in> fst ` set ?c" by (metis fst_conv image_eqI)
    then obtain c' where c': "unlink key ?c = Some c'"
      using unlink_None_iff [of key ?c] by auto
    from unlink_Some [OF c'] obtain w where
      w: "find_value key ?c = Some w" "mset ?c = add_mset (key, w) (mset c')" by blast
    have "distinct (map fst ?c)"
      using dist i by (auto simp: keys_of_def intro: distinct_keys_chain)
    from find_value_distinct [OF this v] w(1) have "w = v" by simp
    with w(2) have split: "mset ?c = add_mset (key, v) (mset c')" by simp
    let ?bs = "(buckets t)[?i := c']"
    let ?t' = "t\<lparr>buckets := ?bs, element_count := decrement (element_count t)\<rparr>"
    have r: "Remove h t key = Inr ?t'" by (simp add: rem c')
    have all: "mset (concat (buckets t)) = add_mset (key, v) (mset (concat ?bs))"
      using i split by (rule mset_concat_update)
    have km: "mset (map fst (concat (buckets t))) = mset (key # map fst (concat ?bs))"
      using arg_cong [OF all, of "image_mset fst"] by simp
    have ks: "keys_of ?t' = map fst (concat ?bs)"
      by (simp add: keys_of_def)
    have kt: "keys_of t = map fst (concat (buckets t))"
      by (simp add: keys_of_def)
    from mset_eq_imp_distinct_iff [OF km] dist [unfolded kt]
    have d: "distinct (keys_of ?t')"
      unfolding ks by simp
    from mset_eq_length [OF km]
    have "length (concat (buckets t)) = Suc (length (concat ?bs))"
      by simp
    with count have len: "element_count t = Suc (length (concat ?bs))"
      by (simp add: kt)
    have c: "element_count ?t' = length (keys_of ?t')"
      unfolding ks by (simp add: len decrement_def)
    have "set ?c = insert (key, v) (set c')"
      using arg_cong [OF split, of set_mset] by simp
    then have "fst ` set c' \<subseteq> fst ` set ?c" by auto
    with placed i have "placed_by h ?n ?bs" by (rule placed_by_replace)
    with d c sized have "invariants h ?t'"
      by (simp add: invariants_def chains_indexed_iff keys_distinct_def count_exact_distinct)
    moreover have "element_count ?t' + 1 = element_count t"
      by (simp add: len decrement_def)
    ultimately show ?thesis using r all by simp
  qed
  from absent present show ?thesis by blast
qed

subsection \<open>What a completed Insert has done\<close>








section \<open>A fresh table\<close>

text \<open>
  C10, as the code has it. A freshly constructed table with at least one bucket and at
  most \<open>2 ^ 31\<close> buckets is empty, whatever its load factor: Size is 0, IsEmpty is
  true, ContainsKey answers false for every key and Get throws \<^verbatim>\<open>std::out_of_range\<close>
  for every key.
\<close>

theorem fresh_table_empty:
  fixes h :: "'k \<Rightarrow> nat" and key :: 'k
  assumes "1 \<le> n" and "n \<le> 2 ^ 31"
  shows "Size (HashTable n lf :: ('k, 'v) chain hash_table) = 0
       \<and> IsEmpty (HashTable n lf :: ('k, 'v) chain hash_table)
       \<and> ContainsKey h (HashTable n lf :: ('k, 'v) chain hash_table) key = Inr False
       \<and> Get h (HashTable n lf :: ('k, 'v) chain hash_table) key = Inl OutOfRange"
proof -
  let ?t = "HashTable n lf :: ('k, 'v) chain hash_table"
  have size: "0 < table_size ?t" "table_size ?t \<le> 2 ^ 31" "table_size ?t = n"
    using assms by (simp_all add: HashTable_def)
  have hash: "HashFunction h ?t key = Inr (int (h key mod n))"
    using HashFunction_small [OF size(1,2), of h key] size(3) by simp
  have index: "size_t_of_int (int (h key mod n)) = h key mod n"
    using assms by (simp add: index_small)
  have "h key mod n < n" using assms(1) by simp
  then have "\<not> length (buckets ?t) \<le> h key mod n" and "buckets ?t ! (h key mod n) = []"
    by (simp_all add: HashTable_def)
  then show ?thesis
    by (simp add: Size_def IsEmpty_def ContainsKey_def Get_def hash index)
       (simp add: HashTable_def)
qed

theorem fresh_table_empty_witness:
  "(1::nat) \<le> 16 \<and> (16::nat) \<le> 2 ^ 31
   \<and> Size (HashTable 16 (Finite 3 (- 2)) :: (nat, nat) chain hash_table) = 0
   \<and> IsEmpty (HashTable 16 (Finite 3 (- 2)) :: (nat, nat) chain hash_table)
   \<and> ContainsKey (\<lambda>k. k) (HashTable 16 (Finite 3 (- 2)) :: (nat, nat) chain hash_table) 21
       = Inr False
   \<and> Get (\<lambda>k. k) (HashTable 16 (Finite 3 (- 2)) :: (nat, nat) chain hash_table) 21
       = Inl OutOfRange"
  using fresh_table_empty [where n = 16 and h = "\<lambda>k. k" and key = "21 :: nat"
      and lf = "Finite 3 (- 2)" and ?'v = nat]
  by simp

text \<open>
  C10 as the spec states it, for any capacity from 1 on, fails above \<open>2 ^ 31\<close> buckets.
  The table with \<open>2 ^ 31 + 1\<close> buckets is constructed when the allocator provides
  them (\<^verbatim>\<open>max_size()\<close> is \<open>2 ^ 60 - 1\<close>). On it the key that hashes to \<open>2 ^ 31\<close> has
  the index \<open>2 ^ 31\<close>, which HashFunction returns as the \<^verbatim>\<open>int\<close> \<open>- 2 ^ 31\<close>; ContainsKey
  and Get index the vector with it, far past its end.
\<close>

theorem fresh_table_beyond_int:
  "(construct 1152921504606846975 (\<lambda>n. True) 2147483649 (Finite 3 (- 2))
      :: error + (nat, nat) chain hash_table)
     = Inr (HashTable 2147483649 (Finite 3 (- 2)))
   \<and> HashFunction (\<lambda>k. k)
        (HashTable 2147483649 (Finite 3 (- 2)) :: (nat, nat) chain hash_table) 2147483648
       = Inr (- 2147483648)
   \<and> size_t_of_int (- 2147483648) = 18446744071562067968
   \<and> ContainsKey (\<lambda>k. k)
        (HashTable 2147483649 (Finite 3 (- 2)) :: (nat, nat) chain hash_table) 2147483648
       = Inl IndexOutOfBounds
   \<and> Get (\<lambda>k. k)
        (HashTable 2147483649 (Finite 3 (- 2)) :: (nat, nat) chain hash_table) 2147483648
       = Inl IndexOutOfBounds"
  by (simp add: construct_def ContainsKey_def Get_def HashFunction_def HashTable_def
      int_of_size_t_def size_t_of_int_def)

section \<open>Construction\<close>

text \<open>
  C9, as the code has it. The constructor looks at neither argument: whatever the
  capacity and the load factor, it returns the table with that capacity, that many
  empty buckets, count 0 and that load factor whenever the vector of heads can be had,
  that is when the capacity is within \<^verbatim>\<open>max_size()\<close> and is 0 or is allocated. It
  throws \<^verbatim>\<open>std::length_error\<close> when the capacity is above \<^verbatim>\<open>max_size()\<close> and
  \<^verbatim>\<open>std::bad_alloc\<close> when the allocation fails, and nothing else.
\<close>

theorem construct_unvalidated:
  "(n \<le> max_size \<and> (n = 0 \<or> allocates n) \<longrightarrow>
      (construct max_size allocates n lf :: error + ('k, 'v) chain hash_table)
        = Inr (HashTable n lf))
   \<and> (max_size < n \<longrightarrow>
        (construct max_size allocates n lf :: error + ('k, 'v) chain hash_table)
          = Inl LengthError)
   \<and> (n \<le> max_size \<and> 0 < n \<and> \<not> allocates n \<longrightarrow>
        (construct max_size allocates n lf :: error + ('k, 'v) chain hash_table)
          = Inl BadAlloc)
   \<and> table_size (HashTable n lf :: ('k, 'v) chain hash_table) = n
   \<and> buckets (HashTable n lf :: ('k, 'v) chain hash_table) = replicate n []
   \<and> element_count (HashTable n lf :: ('k, 'v) chain hash_table) = 0
   \<and> load_refactor (HashTable n lf :: ('k, 'v) chain hash_table) = lf"
  by (auto simp: construct_def HashTable_def)

text \<open>
  Instances, with the \<^verbatim>\<open>max_size()\<close> of a vector of 8-byte heads on a 64-bit machine,
  \<open>2 ^ 60 - 1\<close>, and an allocator that provides up to \<open>2 ^ 20\<close> heads: the default
  arguments, a capacity above \<^verbatim>\<open>max_size()\<close>, and a capacity that is not allocated.
\<close>

theorem construct_unvalidated_witness:
  "(16::nat) \<le> 1152921504606846975
   \<and> (construct 1152921504606846975 (\<lambda>n. n \<le> 1048576) 16 (Finite 3 (- 2))
        :: error + (nat, nat) chain hash_table)
       = Inr (HashTable 16 (Finite 3 (- 2)))
   \<and> (1152921504606846975::nat) < 1152921504606846976
   \<and> (construct 1152921504606846975 (\<lambda>n. n \<le> 1048576) 1152921504606846976 (Finite 3 (- 2))
        :: error + (nat, nat) chain hash_table)
       = Inl LengthError
   \<and> (construct 1152921504606846975 (\<lambda>n. n \<le> 1048576) 1048577 (Finite 3 (- 2))
        :: error + (nat, nat) chain hash_table)
       = Inl BadAlloc"
  using
    construct_unvalidated [where n = 16 and max_size = 1152921504606846975
      and allocates = "\<lambda>n. n \<le> 1048576" and lf = "Finite 3 (- 2)"
      and ?'k = nat and ?'v = nat]
    construct_unvalidated [where n = 1152921504606846976 and max_size = 1152921504606846975
      and allocates = "\<lambda>n. n \<le> 1048576" and lf = "Finite 3 (- 2)"
      and ?'k = nat and ?'v = nat]
    construct_unvalidated [where n = 1048577 and max_size = 1152921504606846975
      and allocates = "\<lambda>n. n \<le> 1048576" and lf = "Finite 3 (- 2)"
      and ?'k = nat and ?'v = nat]
  by simp

text \<open>
  C9 as the spec states it fails, with the same \<^verbatim>\<open>max_size()\<close> and an allocator that
  always provides: capacity 0 is accepted, and so are the load factors 0, 2 and NaN
  with the default capacity 16; and the valid arguments \<open>2 ^ 60\<close> and 0.75 do not give a
  table.
\<close>

theorem construct_accepts_invalid:
  "(construct 1152921504606846975 (\<lambda>n. True) 0 (Finite 3 (- 2))
      :: error + (nat, nat) chain hash_table)
     = Inr \<lparr>buckets = [], table_size = 0, element_count = 0, load_refactor = Finite 3 (- 2)\<rparr>
   \<and> \<not> (\<exists>e. (construct 1152921504606846975 (\<lambda>n. True) 16 (Finite 0 0)
                :: error + (nat, nat) chain hash_table) = Inl e)
   \<and> \<not> (\<exists>e. (construct 1152921504606846975 (\<lambda>n. True) 16 (Finite 2 0)
                :: error + (nat, nat) chain hash_table) = Inl e)
   \<and> \<not> (\<exists>e. (construct 1152921504606846975 (\<lambda>n. True) 16 NaN
                :: error + (nat, nat) chain hash_table) = Inl e)
   \<and> (construct 1152921504606846975 (\<lambda>n. True) 1152921504606846976 (Finite 3 (- 2))
        :: error + (nat, nat) chain hash_table)
       = Inl LengthError"
  by (simp add: construct_def HashTable_def)

section \<open>Moving\<close>

text \<open>
  C6, as the code has it. The move constructor and the move assignment hand the bucket
  array, the capacity, the count and the load factor to the destination and leave the
  source with no buckets, capacity 0, count 0 and load factor 0. Size and IsEmpty of
  the source then answer 0 and true; every operation that hashes a key takes a modulus
  by zero.
\<close>

theorem move_leaves_source_zeroed:
  "move_construct other = (other, moved_from)
   \<and> move_assign this other = (other, moved_from)
   \<and> Size (moved_from :: ('k, 'v) chain hash_table) = 0
   \<and> IsEmpty (moved_from :: ('k, 'v) chain hash_table)
   \<and> HashFunction h (moved_from :: ('k, 'v) chain hash_table) key = Inl ModulusByZero
   \<and> Insert h moved_from key val = Inl ModulusByZero
   \<and> Get h (moved_from :: ('k, 'v) chain hash_table) key = Inl ModulusByZero
   \<and> Remove h (moved_from :: ('k, 'v) chain hash_table) key = Inl ModulusByZero
   \<and> ContainsKey h (moved_from :: ('k, 'v) chain hash_table) key = Inl ModulusByZero"
  by (simp add: move_construct_def move_assign_def moved_from_def float_eval table_eval)

text \<open>
  C6 as the spec states it fails: after a move from a table with 16 buckets the source
  has capacity 0, and ContainsKey on it is a modulus by zero instead of the answer
  false of an empty table.
\<close>

theorem moved_from_unusable:
  "table_size (snd (move_construct (HashTable 16 (Finite 3 (- 2)) :: (nat, nat) chain hash_table))) = 0
   \<and> ContainsKey (\<lambda>k. k)
        (snd (move_construct (HashTable 16 (Finite 3 (- 2)) :: (nat, nat) chain hash_table))) 1
      = Inl ModulusByZero
   \<and> table_size (snd (move_assign (HashTable 4 (Finite 3 (- 2)))
                         (HashTable 16 (Finite 3 (- 2)) :: (nat, nat) chain hash_table))) = 0
   \<and> ContainsKey (\<lambda>k. k)
        (snd (move_assign (HashTable 4 (Finite 3 (- 2)))
                (HashTable 16 (Finite 3 (- 2)) :: (nat, nat) chain hash_table))) 1
      = Inl ModulusByZero"
  by (simp add: move_construct_def move_assign_def table_eval)

section \<open>Clear\<close>

text \<open>
  After Clear no index is in bounds: on any table with a capacity field above 0 the
  operations that read a bucket stop at the access to the empty vector, and so does
  Insert unless it resizes first.
\<close>

lemma Clear_leaves_no_buckets:
  assumes "0 < table_size t"
  shows "buckets (Clear t) = [] \<and> table_size (Clear t) = table_size t
       \<and> element_count (Clear t) = 0 \<and> load_refactor (Clear t) = load_refactor t
       \<and> Get h (Clear t) key = Inl IndexOutOfBounds
       \<and> ContainsKey h (Clear t) key = Inl IndexOutOfBounds
       \<and> Remove h (Clear t) key = Inl IndexOutOfBounds
       \<and> (\<not> load_reached (Clear t) \<longrightarrow> Insert h (Clear t) key val = Inl IndexOutOfBounds)"
  using assms
  by (simp add: Clear_def Get_def ContainsKey_def Remove_def Insert_def HashFunction_def)

text \<open>
  C5. Clear empties the vector of buckets and leaves \<^verbatim>\<open>table_size\<close> as it was. On the
  default table with key 1 inserted and then cleared, the count is 0 and the capacity
  field still 16, but there is no bucket left: ContainsKey and Insert of key 1 index
  the empty vector at 1.
\<close>

theorem Clear_then_Insert_out_of_bounds:
  "Insert (\<lambda>k. k) (HashTable 16 (Finite 3 (- 2)) :: (nat, nat) chain hash_table) 1 10
     = Inr (HashTable 16 (Finite 3 (- 2))
              \<lparr>buckets := (replicate 16 [])[1 := [(1, 10)]], element_count := 1\<rparr>)
   \<and> Clear (HashTable 16 (Finite 3 (- 2))
              \<lparr>buckets := (replicate 16 [])[1 := [(1, 10 :: nat)]], element_count := 1\<rparr>)
     = \<lparr>buckets = [], table_size = 16, element_count = 0, load_refactor = Finite 3 (- 2)\<rparr>
   \<and> ContainsKey (\<lambda>k. k)
        \<lparr>buckets = ([] :: (nat, nat) chain list), table_size = 16, element_count = 0,
         load_refactor = Finite 3 (- 2)\<rparr> 1
     = Inl IndexOutOfBounds
   \<and> Insert (\<lambda>k. k)
        \<lparr>buckets = ([] :: (nat, nat) chain list), table_size = 16, element_count = 0,
         load_refactor = Finite 3 (- 2)\<rparr> 1 10
     = Inl IndexOutOfBounds"
  by (simp add: float_eval table_eval)

section \<open>The growth check of Insert\<close>





section \<open>Growth moves entries to the index of the old capacity\<close>

text \<open>
  The scenario of this section: the table built with capacity 2 and load factor 0.75,
  keys that are unsigned numbers hashed to themselves, and the keys 3 and 1 inserted.
  Both are stored in bucket 1.
\<close>

lemma scenario_first_key:
  "Insert (\<lambda>k. k) (HashTable 2 (Finite 3 (- 2))) (3::nat) (30::nat)
     = Inr \<lparr>buckets = [[], [(3, 30)]], table_size = 2, element_count = 1,
            load_refactor = Finite 3 (- 2)\<rparr>"
  by (simp add: float_eval table_eval replicate_2)

lemma scenario_second_key:
  "Insert (\<lambda>k. k) \<lparr>buckets = [[], [(3, 30)]], table_size = 2, element_count = 1,
                    load_refactor = Finite 3 (- 2)\<rparr> (1::nat) (10::nat)
     = Inr \<lparr>buckets = [[], [(1, 10), (3, 30)]], table_size = 2, element_count = 2,
            load_refactor = Finite 3 (- 2)\<rparr>"
  by (simp add: float_eval table_eval)

text \<open>
  C1. The third insert, of key 5, finds the load reached and resizes. Resize doubles
  the capacity and keeps the count and every entry, but it computes each new index
  with the capacity of before: key 3 goes to bucket 1 (3 mod 2) of the four new
  buckets and not to bucket 3 (3 mod 4). Get of key 3 returned 30 before this insert
  and throws \<^verbatim>\<open>std::out_of_range\<close> after it.
\<close>

theorem Resize_uses_old_capacity:
  "Insert (\<lambda>k. k) (HashTable 2 (Finite 3 (- 2))) (3::nat) (30::nat)
     = Inr \<lparr>buckets = [[], [(3, 30)]], table_size = 2, element_count = 1,
            load_refactor = Finite 3 (- 2)\<rparr>
   \<and> Insert (\<lambda>k. k) \<lparr>buckets = [[], [(3, 30)]], table_size = 2, element_count = 1,
                      load_refactor = Finite 3 (- 2)\<rparr> (1::nat) (10::nat)
     = Inr \<lparr>buckets = [[], [(1, 10), (3, 30)]], table_size = 2, element_count = 2,
            load_refactor = Finite 3 (- 2)\<rparr>
   \<and> Get (\<lambda>k. k) \<lparr>buckets = [[], [(1, 10), (3, 30)]], table_size = 2, element_count = 2,
                   load_refactor = Finite 3 (- 2)\<rparr> (3::nat) = Inr (30::nat)
   \<and> load_reached \<lparr>buckets = [[], [(1::nat, 10::nat), (3, 30)]], table_size = 2,
                    element_count = 2, load_refactor = Finite 3 (- 2)\<rparr>
   \<and> Resize (\<lambda>k. k) \<lparr>buckets = [[], [(1, 10), (3, 30)]], table_size = 2, element_count = 2,
                      load_refactor = Finite 3 (- 2)\<rparr>
     = Inr \<lparr>buckets = [[], [(3::nat, 30::nat), (1, 10)], [], []], table_size = 4,
            element_count = 2, load_refactor = Finite 3 (- 2)\<rparr>
   \<and> Insert (\<lambda>k. k) \<lparr>buckets = [[], [(1, 10), (3, 30)]], table_size = 2, element_count = 2,
                      load_refactor = Finite 3 (- 2)\<rparr> (5::nat) (50::nat)
     = Inr \<lparr>buckets = [[], [(5, 50), (3, 30), (1, 10)], [], []], table_size = 4,
            element_count = 3, load_refactor = Finite 3 (- 2)\<rparr>
   \<and> Get (\<lambda>k. k) \<lparr>buckets = [[], [(5, 50), (3, 30), (1, 10)], [], []], table_size = 4,
                   element_count = 3, load_refactor = Finite 3 (- 2)\<rparr> (3::nat)
     = (Inl OutOfRange :: error + nat)"
  by (simp add: float_eval table_eval replicate_2 replicate_4)

text \<open>
  C2. With keys 3 and 1 stored the three invariants hold. The third insert, of key 3
  again with value 99, resizes first; key 3 is then looked for in bucket 3, not found,
  and stored a second time. In the table that results the chain of bucket 1 holds
  key 3, which hashes to 3; key 3 is stored twice; and the count 3 is not the number
  of different keys, 2.
\<close>

theorem growth_breaks_invariants:
  "Insert (\<lambda>k. k) (HashTable 2 (Finite 3 (- 2))) (3::nat) (30::nat)
     = Inr \<lparr>buckets = [[], [(3, 30)]], table_size = 2, element_count = 1,
            load_refactor = Finite 3 (- 2)\<rparr>
   \<and> Insert (\<lambda>k. k) \<lparr>buckets = [[], [(3, 30)]], table_size = 2, element_count = 1,
                      load_refactor = Finite 3 (- 2)\<rparr> (1::nat) (10::nat)
     = Inr \<lparr>buckets = [[], [(1, 10), (3, 30)]], table_size = 2, element_count = 2,
            load_refactor = Finite 3 (- 2)\<rparr>
   \<and> chains_indexed (\<lambda>k. k) \<lparr>buckets = [[], [(1::nat, 10::nat), (3, 30)]], table_size = 2,
                              element_count = 2, load_refactor = Finite 3 (- 2)\<rparr>
   \<and> keys_distinct \<lparr>buckets = [[], [(1::nat, 10::nat), (3, 30)]], table_size = 2,
                     element_count = 2, load_refactor = Finite 3 (- 2)\<rparr>
   \<and> count_exact \<lparr>buckets = [[], [(1::nat, 10::nat), (3, 30)]], table_size = 2,
                   element_count = 2, load_refactor = Finite 3 (- 2)\<rparr>
   \<and> Insert (\<lambda>k. k) \<lparr>buckets = [[], [(1, 10), (3, 30)]], table_size = 2, element_count = 2,
                      load_refactor = Finite 3 (- 2)\<rparr> (3::nat) (99::nat)
     = Inr \<lparr>buckets = [[], [(3, 30), (1, 10)], [], [(3, 99)]], table_size = 4,
            element_count = 3, load_refactor = Finite 3 (- 2)\<rparr>
   \<and> \<not> chains_indexed (\<lambda>k. k) \<lparr>buckets = [[], [(3::nat, 30::nat), (1, 10)], [], [(3, 99)]],
                                table_size = 4, element_count = 3,
                                load_refactor = Finite 3 (- 2)\<rparr>
   \<and> \<not> keys_distinct \<lparr>buckets = [[], [(3::nat, 30::nat), (1, 10)], [], [(3, 99)]],
                       table_size = 4, element_count = 3, load_refactor = Finite 3 (- 2)\<rparr>
   \<and> \<not> count_exact \<lparr>buckets = [[], [(3::nat, 30::nat), (1, 10)], [], [(3, 99)]],
                     table_size = 4, element_count = 3, load_refactor = Finite 3 (- 2)\<rparr>"
  by (simp add: float_eval table_eval invariant_eval replicate_2 replicate_4)

text \<open>
  C7. On the table built with capacity 1 and load factor 1, Insert of key 1 with value
  10 and then of key 1 with value 20: the second call resizes first, Resize leaves the
  entry in bucket 0 (1 mod 1) of the two new buckets, and Insert looks in bucket 1,
  finds nothing and adds a second entry. The count goes from 1 to 2 and the entry with
  value 10 is still there. On the table of this section, with keys 3 and 1, Insert of
  the new key 7 resizes as well, and afterwards Get of key 3, which that call was not
  given, throws \<^verbatim>\<open>std::out_of_range\<close>.
\<close>

theorem Insert_with_growth_side_effects:
  "Insert (\<lambda>k. k) (HashTable 1 (Finite 1 0)) (1::nat) (10::nat)
     = Inr \<lparr>buckets = [[(1, 10)]], table_size = 1, element_count = 1,
            load_refactor = Finite 1 0\<rparr>
   \<and> Insert (\<lambda>k. k) \<lparr>buckets = [[(1, 10)]], table_size = 1, element_count = 1,
                      load_refactor = Finite 1 0\<rparr> (1::nat) (20::nat)
     = Inr \<lparr>buckets = [[(1, 10)], [(1, 20)]], table_size = 2, element_count = 2,
            load_refactor = Finite 1 0\<rparr>
   \<and> Get (\<lambda>k. k) \<lparr>buckets = [[], [(1, 10), (3, 30)]], table_size = 2, element_count = 2,
                   load_refactor = Finite 3 (- 2)\<rparr> (3::nat) = Inr (30::nat)
   \<and> Insert (\<lambda>k. k) \<lparr>buckets = [[], [(1, 10), (3, 30)]], table_size = 2, element_count = 2,
                      load_refactor = Finite 3 (- 2)\<rparr> (7::nat) (70::nat)
     = Inr \<lparr>buckets = [[], [(3, 30), (1, 10)], [], [(7, 70)]], table_size = 4,
            element_count = 3, load_refactor = Finite 3 (- 2)\<rparr>
   \<and> Get (\<lambda>k. k) \<lparr>buckets = [[], [(3, 30), (1, 10)], [], [(7, 70)]], table_size = 4,
                   element_count = 3, load_refactor = Finite 3 (- 2)\<rparr> (3::nat)
     = (Inl OutOfRange :: error + nat)"
  by (simp add: float_eval table_eval replicate_2 replicate_4)

text \<open>
  C8. After the inserts of keys 3, 1 and 5 the table has capacity 4 and an entry with
  key 3, in bucket 1. Get, ContainsKey and Remove look for key 3 in bucket 3: Get and
  Remove throw \<^verbatim>\<open>std::out_of_range\<close> and ContainsKey answers false.
\<close>

theorem stored_key_not_found:
  "Insert (\<lambda>k. k) \<lparr>buckets = [[], [(1, 10), (3, 30)]], table_size = 2, element_count = 2,
                    load_refactor = Finite 3 (- 2)\<rparr> (5::nat) (50::nat)
     = Inr \<lparr>buckets = [[], [(5, 50), (3, 30), (1, 10)], [], []], table_size = 4,
            element_count = 3, load_refactor = Finite 3 (- 2)\<rparr>
   \<and> 3 \<in> set (keys_of \<lparr>buckets = [[], [(5::nat, 50::nat), (3, 30), (1, 10)], [], []],
                         table_size = 4, element_count = 3, load_refactor = Finite 3 (- 2)\<rparr>)
   \<and> Get (\<lambda>k. k) \<lparr>buckets = [[], [(5, 50), (3, 30), (1, 10)], [], []], table_size = 4,
                   element_count = 3, load_refactor = Finite 3 (- 2)\<rparr> (3::nat)
     = (Inl OutOfRange :: error + nat)
   \<and> ContainsKey (\<lambda>k. k) \<lparr>buckets = [[], [(5::nat, 50::nat), (3, 30), (1, 10)], [], []],
                           table_size = 4, element_count = 3,
                           load_refactor = Finite 3 (- 2)\<rparr> 3
     = Inr False
   \<and> Remove (\<lambda>k. k) \<lparr>buckets = [[], [(5::nat, 50::nat), (3, 30), (1, 10)], [], []],
                      table_size = 4, element_count = 3, load_refactor = Finite 3 (- 2)\<rparr> 3
     = Inl OutOfRange"
  by (simp add: float_eval table_eval invariant_eval replicate_4)

section \<open>Copying\<close>

text \<open>
  A table whose chains have one node each is copied as intended: the nodes of the table
  read, at addresses 0 and 1, are untouched, and the new table owns the copies at
  addresses 2 and 3.
\<close>

lemma copy_construct_single_nodes:
  "in_store [] \<lparr>buckets = [[(2::nat, 20::nat)], [(1, 10)]], table_size = 2,
                element_count = 2, load_refactor = Finite 3 (- 2)\<rparr>
     = ([Some \<lparr>node_key = 2, node_value = 20, node_next = None\<rparr>,
         Some \<lparr>node_key = 1, node_value = 10, node_next = None\<rparr>],
        \<lparr>buckets = [Some 0, Some 1], table_size = 2, element_count = 2,
         load_refactor = Finite 3 (- 2)\<rparr>)
   \<and> copy_construct [Some \<lparr>node_key = 2::nat, node_value = 20::nat, node_next = None\<rparr>,
                     Some \<lparr>node_key = 1, node_value = 10, node_next = None\<rparr>]
        \<lparr>buckets = [Some 0, Some 1], table_size = 2, element_count = 2,
         load_refactor = Finite 3 (- 2)\<rparr>
     = Some (Inr ([Some \<lparr>node_key = 2, node_value = 20, node_next = None\<rparr>,
                   Some \<lparr>node_key = 1, node_value = 10, node_next = None\<rparr>,
                   Some \<lparr>node_key = 2, node_value = 20, node_next = None\<rparr>,
                   Some \<lparr>node_key = 1, node_value = 10, node_next = None\<rparr>],
                  \<lparr>buckets = [Some 2, Some 3], table_size = 2, element_count = 2,
                   load_refactor = Finite 3 (- 2)\<rparr>))"
  by (simp add: store_eval upt_2 replicate_2)

text \<open>
  C4. The table with keys 3 and 1 in bucket 1, laid out in an empty store, has the node
  of key 3 at address 0 and the node of key 1, the head of the chain, at address 1.

  The copy constructor copies the head to address 2 and links it to bucket 1 of the
  new table; \<^verbatim>\<open>previous\<close> then becomes the head of the chain being read, address 1, and
  not the copy. In the second round the copy of the node of key 3, at address 3, is
  therefore linked behind the node at address 1: the table being read now owns it, its
  own node at address 0 is destroyed, and the new table holds key 1 only. The read of
  \<^verbatim>\<open>current->next\<close> that follows is a read of the destroyed node.

  The copy assignment clears \<^verbatim>\<open>*this\<close> first, which leaves it no bucket, and
  CopyBuckets then assigns to \<^verbatim>\<open>buckets[1]\<close> for the first node it reads, here from a
  table with the single key 1.
\<close>

theorem CopyBuckets_writes_into_source:
  "in_store [] \<lparr>buckets = [[], [(1::nat, 10::nat), (3, 30)]], table_size = 2,
                element_count = 2, load_refactor = Finite 3 (- 2)\<rparr>
     = ([Some \<lparr>node_key = 3, node_value = 30, node_next = None\<rparr>,
         Some \<lparr>node_key = 1, node_value = 10, node_next = Some 0\<rparr>],
        \<lparr>buckets = [None, Some 1], table_size = 2, element_count = 2,
         load_refactor = Finite 3 (- 2)\<rparr>)
   \<and> link_copy [Some \<lparr>node_key = 3::nat, node_value = 30::nat, node_next = None\<rparr>,
                Some \<lparr>node_key = 1, node_value = 10, node_next = Some 0\<rparr>]
        [None, None] 1 1 None
     = Inr ([Some \<lparr>node_key = 3, node_value = 30, node_next = None\<rparr>,
             Some \<lparr>node_key = 1, node_value = 10, node_next = Some 0\<rparr>,
             Some \<lparr>node_key = 1, node_value = 10, node_next = None\<rparr>],
            [None, Some 2])
   \<and> advance [Some \<lparr>node_key = 3::nat, node_value = 30::nat, node_next = None\<rparr>,
              Some \<lparr>node_key = 1, node_value = 10, node_next = Some 0\<rparr>,
              Some \<lparr>node_key = 1, node_value = 10, node_next = None\<rparr>]
        [None, Some 1] 1 1 None
     = Inr (Some 0, Some 1)
   \<and> link_copy [Some \<lparr>node_key = 3::nat, node_value = 30::nat, node_next = None\<rparr>,
                Some \<lparr>node_key = 1, node_value = 10, node_next = Some 0\<rparr>,
                Some \<lparr>node_key = 1, node_value = 10, node_next = None\<rparr>]
        [None, Some 2] 1 0 (Some 1)
     = Inr ([None,
             Some \<lparr>node_key = 1, node_value = 10, node_next = Some 3\<rparr>,
             Some \<lparr>node_key = 1, node_value = 10, node_next = None\<rparr>,
             Some \<lparr>node_key = 3, node_value = 30, node_next = None\<rparr>],
            [None, Some 2])
   \<and> advance [None,
              Some \<lparr>node_key = 1::nat, node_value = 10::nat, node_next = Some 3\<rparr>,
              Some \<lparr>node_key = 1, node_value = 10, node_next = None\<rparr>,
              Some \<lparr>node_key = 3, node_value = 30, node_next = None\<rparr>]
        [None, Some 1] 1 0 (Some 1)
     = Inl UseAfterFree
   \<and> copy_construct [Some \<lparr>node_key = 3::nat, node_value = 30::nat, node_next = None\<rparr>,
                     Some \<lparr>node_key = 1, node_value = 10, node_next = Some 0\<rparr>]
        \<lparr>buckets = [None, Some 1], table_size = 2, element_count = 2,
         load_refactor = Finite 3 (- 2)\<rparr>
     = Some (Inl UseAfterFree)
   \<and> copy_assign [Some \<lparr>node_key = 1::nat, node_value = 10::nat, node_next = None\<rparr>]
        \<lparr>buckets = [None, None], table_size = 2, element_count = 0,
         load_refactor = Finite 3 (- 2)\<rparr>
        \<lparr>buckets = [None, Some 0], table_size = 2, element_count = 1,
         load_refactor = Finite 3 (- 2)\<rparr>
     = Some (Inl IndexOutOfBounds)"
  by (simp add: store_eval upt_2 replicate_2)

end
